theory Spec2Isabelle
  imports Complex_Main "HOL-Library.Word" "HOL-Library.Sublist"
begin

unbundle bit_operations_syntax

section \<open>Data model\<close>

text \<open>
  The decision-package synthesis engine of the repository (the module that imports
  \<^verbatim>\<open>../config/v2-rules.json\<close>): severity ranking, the rule and action resolvers, the
  contingency resolver, the confidence scorer and the seeded Monte Carlo estimator.

  Conventions of the embedding.
  \<^item> A JavaScript \<^verbatim>\<open>number\<close> is a \<^typ>\<open>real\<close>; counts and indices are \<^typ>\<open>nat\<close> or
    \<^typ>\<open>int\<close>. The values NaN and Infinity are outside the model.
  \<^item> In the Monte Carlo estimator arithmetic is exact; the properties proved of it are
    orderings, bounds and zero totals. In the confidence scorer a quotient is rounded to
    an integer, and there the rounding error of binary64 decides the result at half-way
    points: each arithmetic operation of the scorer is followed by the rounding
    \<open>binary64\<close> to the nearest double.
  \<^item> The 32-bit integer arithmetic of the hash and of the generator
    (\<^verbatim>\<open>Math.imul\<close>, \<^verbatim>\<open>^=\<close>, \<^verbatim>\<open>>>> 0\<close>) is arithmetic on \<^typ>\<open>32 word\<close>.
  \<^item> A string that is only compared or concatenated is a \<^typ>\<open>string\<close>; the seed key,
    which is read with \<^verbatim>\<open>charCodeAt\<close>, is the list of its UTF-16 code units.
  \<^item> A signal's severity is the string the program compares with \<^verbatim>\<open>===\<close>. Its declared
    type has the four values \<^verbatim>\<open>low\<close>, \<^verbatim>\<open>medium\<close>, \<^verbatim>\<open>high\<close> and \<^verbatim>\<open>unknown\<close>, but the type is
    erased at run time and no function checks it, so every string is admitted.
  \<^item> Reading \<^verbatim>\<open>config.actionLibrary[key]\<close> on the plain object of the configuration finds
    the object's own entries and, for a key it does not have, the members it inherits
    from \<^verbatim>\<open>Object.prototype\<close>.
  \<^item> A \<^verbatim>\<open>TypeError\<close> raised by reading a property of \<^verbatim>\<open>undefined\<close> is the value
    \<open>Inl TypeError\<close> of a sum type.
  \<^item> \<^verbatim>\<open>Array.prototype.sort\<close> is a stable sort (ECMAScript 2019), modelled by
    \<^const>\<open>sort_key\<close>, which is a stable insertion sort.
\<close>

datatype error = TypeError

text \<open>
  \<^verbatim>\<open>Signal["severity"]\<close>, a string at run time, and \<^verbatim>\<open>SeverityKey\<close>, the three strings that
  \<open>asSeverity\<close> lets through; \<open>severityOf\<close> is the string of a key.
\<close>

type_synonym severity = string

datatype SeverityKey = KeyHigh | KeyMedium | KeyLow

fun severityOf :: "SeverityKey \<Rightarrow> severity" where
  "severityOf KeyHigh = ''high''"
| "severityOf KeyMedium = ''medium''"
| "severityOf KeyLow = ''low''"

record Signal =
  signal_id :: string
  signal_label :: string
  signal_value :: string
  signal_severity :: severity
  signal_explanation :: string

datatype ImpactType = capex | general_conditions | insurance | schedule

text \<open>The object type \<^verbatim>\<open>{ min: number; max: number }\<close>.\<close>

record MinMax =
  min_val :: real
  max_val :: real

record CostDriver =
  driver_id :: string
  driver_signalId :: string
  driver_label :: string
  driver_severity :: SeverityKey
  driver_costCategory :: string
  driver_impactType :: ImpactType
  estimatedCostDeltaPct :: MinMax
  estimatedScheduleDeltaDays :: MinMax
  driver_rationale :: string

datatype Owner = Estimator | ProjectManager | CivilEngineer | StructuralEngineer | Geotech

datatype DuePhase = Bid | DesignDevelopment | Permit | Procurement | Mobilization


text \<open>
  \<^verbatim>\<open>ActionConfig = Omit<PMAction, "id" | "relatedSignalId" | "priority">\<close>. An action is
  built as \<^verbatim>\<open>{ id, relatedSignalId, priority, ...template }\<close>: the four template fields
  are those the spread copies, all four from a library entry and none from an inherited
  member of \<^verbatim>\<open>Object.prototype\<close>, which has no enumerable property of its own. They are
  the one optional group \<open>spread\<close>.
\<close>

record ActionConfig =
  title :: string
  owner :: Owner
  duePhase :: DuePhase
  leadTimeDays :: real


record ContingencyRange =
  minPct :: real
  maxPct :: real
  basis :: string

text \<open>An entry of \<^verbatim>\<open>contingencyBands\<close>: \<^verbatim>\<open>ContingencyRange & { minScore: number }\<close>.\<close>

record Band = ContingencyRange +
  minScore :: real

text \<open>
  One entry of a rule's \<^verbatim>\<open>deltas\<close>. A missing array is the empty list: \<open>pair\<close> reads
  both through \<^verbatim>\<open>values?.[i] ?? default\<close>.
\<close>

record Delta =
  pct :: "real list"
  days :: "real list"

text \<open>
  \<^verbatim>\<open>deltas: Record<SeverityKey, ...>\<close> is read from JSON and only cast to its type, so a
  key may be absent at run time: the map is partial.
\<close>

record RuleConfig =
  signalId :: string
  costCategory :: string
  impactType :: ImpactType
  deltas :: "SeverityKey \<Rightarrow> Delta option"
  rationale :: string

text \<open>
  The configuration (\<^verbatim>\<open>../config/v2-rules.json\<close>, not part of the sources) is a
  parameter of every resolver. The two bid-assumption sections are left out: no
  operation modelled here reads them.
\<close>

record Config =
  costRules :: "RuleConfig list"
  actionLibrary :: "string \<Rightarrow> ActionConfig option"
  contingencyBands :: "Band list"

record PercentileTriple =
  p10 :: real
  p50 :: real
  p90 :: real

record ProbabilisticEstimate =
  est_baselineCostUsd :: "real option"
  impactPct :: PercentileTriple
  scheduleDays :: PercentileTriple
  impactCostUsd :: "PercentileTriple option"
  methodology :: string
  est_sampleSize :: nat

text \<open>The argument object of \<open>buildProbabilisticEstimate\<close>.\<close>

record EstimateArgs =
  costDrivers :: "CostDriver list"
  baselineCostUsd :: "real option"
  seedKey :: "16 word list"
  sampleSize :: "nat option"

section \<open>Configuration and severity helpers\<close>

text \<open>
  \<^verbatim>\<open>const config = rules as Config;\<close> A type assertion is erased at compile time: the
  imported JSON value becomes the configuration unchanged and nothing is checked.
\<close>

definition config :: "Config \<Rightarrow> error + Config" where
  "config rules = Inr rules"

fun pair :: "real list \<Rightarrow> real \<times> real" where
  "pair [] = (0, 0)"
| "pair [first] = (first, first)"
| "pair (first # second # rest) = (first, second)"

definition rankSeverity :: "severity \<Rightarrow> int" where
  "rankSeverity severity =
     (if severity = ''high'' then 3
      else if severity = ''medium'' then 2
      else if severity = ''low'' then 1
      else 0)"

definition asSeverity :: "severity \<Rightarrow> SeverityKey option" where
  "asSeverity severity =
     (if severity = ''high'' then Some KeyHigh
      else if severity = ''medium'' then Some KeyMedium
      else if severity = ''low'' then Some KeyLow
      else None)"

section \<open>Seeded pseudorandom generator\<close>

definition hashSeed :: "16 word list \<Rightarrow> 32 word" where
  "hashSeed input = foldl (\<lambda>hash c. (hash XOR ucast c) * 16777619) 2166136261 input"

text \<open>
  \<open>createRng\<close> returns a closure over the variable \<open>state\<close>. The closure is modelled by
  its initial state (\<open>createRng\<close>, with the guard \<^verbatim>\<open>seed || 1\<close>) and by its body
  (\<open>rng\<close>), which returns the uniform value and the new state.
\<close>

definition createRng :: "32 word \<Rightarrow> 32 word" where
  "createRng seed = (if seed = 0 then 1 else seed)"

definition rng :: "32 word \<Rightarrow> real \<times> 32 word" where
  "rng state = (let state' = 1664525 * state + 1013904223
                in (real (unat state') / 4294967296, state'))"

section \<open>Monte Carlo estimator\<close>

text \<open>
  \<open>triangularSample\<close> receives the generator as an argument; here it is any function
  from a state to a uniform value and the next state. \<^verbatim>\<open>Math.sqrt\<close> is \<^const>\<open>sqrt\<close>,
  which agrees with it on the non-negative reals.
\<close>

definition triangularSample ::
    "real \<Rightarrow> real \<Rightarrow> real \<Rightarrow> ('s \<Rightarrow> real \<times> 's) \<Rightarrow> 's \<Rightarrow> real \<times> 's" where
  "triangularSample mn mx mode gen st =
     (if mx \<le> mn then (mn, st)
      else
        (let (u, st') = gen st;
             split = (mode - mn) / (mx - mn)
         in if u < split then (mn + sqrt (u * (mx - mn) * (mode - mn)), st')
            else (mx - sqrt ((1 - u) * (mx - mn) * (mx - mode)), st')))"

text \<open>\<^verbatim>\<open>Math.round\<close>: the nearest integer, a half rounded up.\<close>

definition math_round :: "real \<Rightarrow> int" where
  "math_round x = \<lfloor>x + 1 / 2\<rfloor>"

definition percentile :: "real list \<Rightarrow> real \<Rightarrow> real" where
  "percentile sortedList p =
     (if sortedList = [] then 0
      else
        (let idx = min (int (length sortedList) - 1)
                       (max 0 \<lfloor>(p / 100) * real (length sortedList)\<rfloor>)
         in sortedList ! nat idx))"

definition round2 :: "real \<Rightarrow> real" where
  "round2 n = real_of_int (math_round (n * 100)) / 100"

definition toTriple :: "real \<Rightarrow> real \<Rightarrow> real \<Rightarrow> PercentileTriple" where
  "toTriple a b c = \<lparr>p10 = round2 a, p50 = round2 b, p90 = round2 c\<rparr>"

text \<open>The body of the inner loop: one driver adds two samples to the running sums.\<close>

definition sampleDriver ::
    "real \<times> real \<times> 32 word \<Rightarrow> CostDriver \<Rightarrow> real \<times> real \<times> 32 word" where
  "sampleDriver acc driver =
     (let (pctSum, daySum, st) = acc;
          pctMin = min_val (estimatedCostDeltaPct driver);
          pctMax = max_val (estimatedCostDeltaPct driver);
          pctMode = (pctMin + pctMax) / 2;
          dayMin = min_val (estimatedScheduleDeltaDays driver);
          dayMax = max_val (estimatedScheduleDeltaDays driver);
          dayMode = (dayMin + dayMax) / 2;
          (pctSample, st1) = triangularSample pctMin pctMax pctMode rng st;
          (daySample, st2) = triangularSample dayMin dayMax dayMode rng st1
      in (pctSum + pctSample, daySum + daySample, st2))"

text \<open>
  The outer loop, by the number of trials still to run: each trial sums over the
  drivers from \<open>(0, 0)\<close> and pushes the two sums.
\<close>

fun trials ::
    "nat \<Rightarrow> CostDriver list \<Rightarrow> real list \<Rightarrow> real list \<Rightarrow> 32 word \<Rightarrow> real list \<times> real list" where
  "trials 0 drivers pctTotals dayTotals st = (pctTotals, dayTotals)"
| "trials (Suc k) drivers pctTotals dayTotals st =
     (let (pctSum, daySum, st') = foldl sampleDriver (0, 0, st) drivers
      in trials k drivers (pctTotals @ [pctSum]) (dayTotals @ [daySum]) st')"

definition methodologyText :: string where
  "methodologyText =
     ''Monte Carlo using triangular distributions derived from each cost-driver min/max range.''"

definition buildProbabilisticEstimate :: "'a EstimateArgs_scheme \<Rightarrow> ProbabilisticEstimate" where
  "buildProbabilisticEstimate args =
     (let size = (case sampleSize args of None \<Rightarrow> 2000 | Some n \<Rightarrow> n);
          st0 = createRng (hashSeed (seedKey args));
          (pctTotals, dayTotals) = trials size (costDrivers args) [] [] st0;
          pctSorted = sort pctTotals;
          daySorted = sort dayTotals;
          impact = toTriple (percentile pctSorted 10) (percentile pctSorted 50)
                     (percentile pctSorted 90);
          sched = toTriple (percentile daySorted 10) (percentile daySorted 50)
                    (percentile daySorted 90);
          toUsd = (\<lambda>base pc. round2 ((pc / 100) * base))
      in \<lparr>est_baselineCostUsd = baselineCostUsd args,
          impactPct = impact,
          scheduleDays = sched,
          impactCostUsd =
            (case baselineCostUsd args of
               None \<Rightarrow> None
             | Some base \<Rightarrow>
                 if base > 0
                 then Some \<lparr>p10 = toUsd base (p10 impact), p50 = toUsd base (p50 impact),
                            p90 = toUsd base (p90 impact)\<rparr>
                 else None),
          methodology = methodologyText,
          est_sampleSize = size\<rparr>)"

section \<open>Rule resolver\<close>

text \<open>
  \<^verbatim>\<open>new Map(signals.map((signal) => [signal.id, signal]))\<close>: among signals with the same
  id the last one is kept, so the lookup searches the list from its end.
\<close>

definition byId :: "Signal list \<Rightarrow> string \<Rightarrow> Signal option" where
  "byId signals = map_of (rev (map (\<lambda>signal. (signal_id signal, signal)) signals))"

text \<open>
  The callback of \<^verbatim>\<open>config.costRules.map\<close>: \<open>Inr None\<close> is the callback's \<^verbatim>\<open>null\<close>,
  and reading \<^verbatim>\<open>delta.pct\<close> when \<^verbatim>\<open>rule.deltas[severity]\<close> is undefined raises.
\<close>

definition resolveRule :: "(string \<Rightarrow> Signal option) \<Rightarrow> RuleConfig \<Rightarrow> error + CostDriver option" where
  "resolveRule lookup rule =
     (case lookup (signalId rule) of
        None \<Rightarrow> Inr None
      | Some signal \<Rightarrow>
          (case asSeverity (signal_severity signal) of
             None \<Rightarrow> Inr None
           | Some sev \<Rightarrow>
               (case deltas rule sev of
                  None \<Rightarrow> Inl TypeError
                | Some delta \<Rightarrow>
                    (let (costMin, costMax) = pair (pct delta);
                         (daysMin, daysMax) = pair (days delta)
                     in Inr (Some
                          \<lparr>driver_id = ''driver-'' @ signalId rule,
                           driver_signalId = signalId rule,
                           driver_label = signal_label signal,
                           driver_severity = sev,
                           driver_costCategory = costCategory rule,
                           driver_impactType = impactType rule,
                           estimatedCostDeltaPct = \<lparr>min_val = costMin, max_val = costMax\<rparr>,
                           estimatedScheduleDeltaDays = \<lparr>min_val = daysMin, max_val = daysMax\<rparr>,
                           driver_rationale = rationale rule\<rparr>)))))"

text \<open>\<^verbatim>\<open>Array.prototype.map\<close> with a callback that may raise: the first error ends the call.\<close>

fun mapRules :: "(RuleConfig \<Rightarrow> error + CostDriver option) \<Rightarrow> RuleConfig list
    \<Rightarrow> error + CostDriver option list" where
  "mapRules f [] = Inr []"
| "mapRules f (rule # rules) =
     (case f rule of
        Inl e \<Rightarrow> Inl e
      | Inr d \<Rightarrow> (case mapRules f rules of Inl e \<Rightarrow> Inl e | Inr ds \<Rightarrow> Inr (d # ds)))"

text \<open>\<^verbatim>\<open>.filter((driver) => driver !== null)\<close>\<close>

fun dropNull :: "'a option list \<Rightarrow> 'a list" where
  "dropNull [] = []"
| "dropNull (None # xs) = dropNull xs"
| "dropNull (Some x # xs) = x # dropNull xs"

text \<open>
  The drivers in rule-table order, before the sort, and \<open>buildCostDrivers\<close> itself. The
  comparator \<^verbatim>\<open>rankSeverity(b.severity) - rankSeverity(a.severity)\<close> orders by ascending
  negated rank.
\<close>

definition driverRank :: "CostDriver \<Rightarrow> int" where
  "driverRank d = rankSeverity (severityOf (driver_severity d))"

definition resolvedDrivers :: "Config \<Rightarrow> Signal list \<Rightarrow> error + CostDriver list" where
  "resolvedDrivers cfg signals =
     (case mapRules (resolveRule (byId signals)) (costRules cfg) of
        Inl e \<Rightarrow> Inl e
      | Inr ds \<Rightarrow> Inr (dropNull ds))"

definition buildCostDrivers :: "Config \<Rightarrow> Signal list \<Rightarrow> error + CostDriver list" where
  "buildCostDrivers cfg signals =
     (case resolvedDrivers cfg signals of
        Inl e \<Rightarrow> Inl e
      | Inr ds \<Rightarrow> Inr (sort_key (\<lambda>d. - driverRank d) ds))"

section \<open>Action resolver\<close>









section \<open>Contingency resolver\<close>

text \<open>
  \<^verbatim>\<open>sortedBands.find(...) ?? sortedBands[sortedBands.length - 1]\<close>: on an empty ladder
  the fallback is \<^verbatim>\<open>undefined\<close> and reading \<^verbatim>\<open>band.minPct\<close> raises.
\<close>

definition buildContingency :: "Config \<Rightarrow> Signal list \<Rightarrow> error + ContingencyRange" where
  "buildContingency cfg signals =
     (let score = sum_list (map (\<lambda>signal. rankSeverity (signal_severity signal)) signals);
          sortedBands = sort_key (\<lambda>b. - minScore b) (contingencyBands cfg);
          band = (case find (\<lambda>candidate. real_of_int score \<ge> minScore candidate) sortedBands of
                    Some b \<Rightarrow> Some b
                  | None \<Rightarrow> if sortedBands = [] then None else Some (last sortedBands))
      in case band of
           None \<Rightarrow> Inl TypeError
         | Some b \<Rightarrow> Inr \<lparr>minPct = minPct b, maxPct = maxPct b, basis = basis b\<rparr>)"

section \<open>Confidence scorer\<close>

text \<open>
  Rounding to binary64 (IEEE 754 double precision, round to nearest, ties to even) of a
  real in the normal range: with \<open>e\<close> the binary exponent of \<open>x\<close>, the significand
  \<open>x / 2^e\<close> is rounded to 52 fractional bits. Overflow and subnormal numbers are not
  modelled; the scorer's values lie between \<open>2^-54\<close> and \<open>2^7\<close> or are \<open>0\<close>.
\<close>

definition round_half_even :: "real \<Rightarrow> int" where
  "round_half_even x =
     (let n = \<lfloor>x\<rfloor>; r = x - of_int n
      in if r < 1 / 2 then n else if 1 / 2 < r then n + 1 else if even n then n else n + 1)"

definition binary64 :: "real \<Rightarrow> real" where
  "binary64 x =
     (if x = 0 then 0
      else (let e = \<lfloor>log 2 \<bar>x\<bar>\<rfloor>
            in of_int (round_half_even (x * 2 powi (52 - e))) * 2 powi (e - 52)))"

text \<open>The predicate of the filter: a signal whose value is not one of the two sentinels.\<close>

definition knownSignal :: "Signal \<Rightarrow> bool" where
  "knownSignal signal \<longleftrightarrow>
     signal_value signal \<noteq> ''Not available'' \<and> signal_value signal \<noteq> ''Unknown''"

record Confidence =
  confidenceScore :: int
  dataCompletenessPct :: int

text \<open>
  The lengths, \<^verbatim>\<open>warnings.length * 6\<close> and \<^verbatim>\<open>100 - completeness\<close> are integers far below
  \<open>2^53\<close>, hence exact; the literal \<^verbatim>\<open>0.4\<close> is the double nearest to \<open>2/5\<close>.
\<close>

definition scoreConfidence :: "Signal list \<Rightarrow> string list \<Rightarrow> Confidence" where
  "scoreConfidence signals warnings =
     (let totalSignals = (if length signals = 0 then 1 else length signals);
          knownSignals = length (filter knownSignal signals);
          completeness =
            math_round (binary64 (binary64 (real knownSignals / real totalSignals) * 100));
          warningPenalty = min (int (length warnings) * 6) 30;
          availabilityPenalty =
            binary64 (real_of_int (max 0 (100 - completeness)) * binary64 (2 / 5));
          score = max 35 (math_round
                    (binary64 (binary64 (100 - real_of_int warningPenalty) - availabilityPenalty)))
      in \<lparr>confidenceScore = score, dataCompletenessPct = completeness\<rparr>)"

section \<open>Example inputs\<close>

text \<open>
  Concrete signals and configurations at which the theorems below are instantiated. The
  rule for \<^verbatim>\<open>flood-zone\<close> carries the ranges of the specification's scenario
  (\<^verbatim>\<open>high: {pct: [5, 12], days: [10, 25]}\<close>).
\<close>

definition exampleSignal :: "string \<Rightarrow> string \<Rightarrow> severity \<Rightarrow> Signal" where
  "exampleSignal sid shown sev =
     \<lparr>signal_id = sid, signal_label = sid, signal_value = shown, signal_severity = sev,
      signal_explanation = []\<rparr>"

definition floodHigh :: Signal where
  "floodHigh = exampleSignal ''flood-zone'' ''AE'' ''high''"

definition floodMedium :: Signal where
  "floodMedium = exampleSignal ''flood-zone'' ''X (shaded)'' ''medium''"


definition slopeLow :: Signal where
  "slopeLow = exampleSignal ''slope'' ''1.5%'' ''low''"

definition seismicHigh :: Signal where
  "seismicHigh = exampleSignal ''seismic-design-category'' ''D'' ''high''"



fun exampleDeltas :: "SeverityKey \<Rightarrow> Delta option" where
  "exampleDeltas KeyHigh = Some \<lparr>pct = [5, 12], days = [10, 25]\<rparr>"
| "exampleDeltas KeyMedium = Some \<lparr>pct = [2, 5], days = [3, 10]\<rparr>"
| "exampleDeltas KeyLow = Some \<lparr>pct = [0, 1], days = [0, 2]\<rparr>"

text \<open>The same map without the key \<^verbatim>\<open>high\<close>.\<close>

fun deltasWithoutHigh :: "SeverityKey \<Rightarrow> Delta option" where
  "deltasWithoutHigh KeyHigh = None"
| "deltasWithoutHigh KeyMedium = Some \<lparr>pct = [2, 5], days = [3, 10]\<rparr>"
| "deltasWithoutHigh KeyLow = Some \<lparr>pct = [0, 1], days = [0, 2]\<rparr>"

definition exampleRule :: "string \<Rightarrow> RuleConfig" where
  "exampleRule sid =
     \<lparr>signalId = sid, costCategory = ''Sitework'', impactType = capex,
      deltas = exampleDeltas, rationale = []\<rparr>"

definition brokenRule :: RuleConfig where
  "brokenRule =
     \<lparr>signalId = ''flood-zone'', costCategory = ''Sitework'', impactType = capex,
      deltas = deltasWithoutHigh, rationale = []\<rparr>"

definition floodTemplate :: ActionConfig where
  "floodTemplate =
     \<lparr>title = ''Confirm base flood elevation'', owner = CivilEngineer, duePhase = Permit,
      leadTimeDays = 14\<rparr>"

definition exampleConfig :: Config where
  "exampleConfig =
     \<lparr>costRules = [exampleRule ''slope'', exampleRule ''flood-zone'',
                   exampleRule ''wildfire-risk'', exampleRule ''seismic-design-category''],
      actionLibrary = (\<lambda>k. if k = ''flood-zone'' then Some floodTemplate else None),
      contingencyBands = [\<lparr>minPct = 5, maxPct = 8, basis = ''Base'', minScore = 0\<rparr>]\<rparr>"

text \<open>A configuration with a rule that lacks a severity and with an empty band ladder.\<close>

definition brokenConfig :: Config where
  "brokenConfig =
     \<lparr>costRules = [brokenRule],
      actionLibrary = (\<lambda>k. None),
      contingencyBands = []\<rparr>"

definition exampleDriver :: "string \<Rightarrow> SeverityKey \<Rightarrow> real \<Rightarrow> real \<Rightarrow> real \<Rightarrow> real \<Rightarrow> CostDriver" where
  "exampleDriver sid sev costMin costMax daysMin daysMax =
     \<lparr>driver_id = ''driver-'' @ sid, driver_signalId = sid, driver_label = sid,
      driver_severity = sev, driver_costCategory = ''Sitework'', driver_impactType = capex,
      estimatedCostDeltaPct = \<lparr>min_val = costMin, max_val = costMax\<rparr>,
      estimatedScheduleDeltaDays = \<lparr>min_val = daysMin, max_val = daysMax\<rparr>,
      driver_rationale = []\<rparr>"

text \<open>A driver whose two ranges are single points, so that no sample is drawn for it.\<close>

definition fixedDriver :: CostDriver where
  "fixedDriver = exampleDriver ''flood-zone'' KeyHigh 5 5 10 10"

definition exampleArgs :: EstimateArgs where
  "exampleArgs =
     \<lparr>costDrivers = [fixedDriver], baselineCostUsd = Some 1000,
      seedKey = [97, 98, 99], sampleSize = Some 2\<rparr>"

text \<open>
  Signal lists for the scorer: \<open>k\<close> signals with a value followed by \<open>m\<close> signals whose
  value is the sentinel \<^verbatim>\<open>Not available\<close>.
\<close>

definition availableSignal :: Signal where
  "availableSignal = exampleSignal ''slope'' ''1.5%'' ''low''"

definition missingSignal :: Signal where
  "missingSignal = exampleSignal ''clay-content'' ''Not available'' ''unknown''"

definition mixedSignals :: "nat \<Rightarrow> nat \<Rightarrow> Signal list" where
  "mixedSignals k m = replicate k availableSignal @ replicate m missingSignal"

section \<open>The seeded generator\<close>

lemma hashSeed_snoc: "hashSeed (s @ [c]) = (hashSeed s XOR ucast c) * 16777619"
  by (simp add: hashSeed_def)

lemma rng_unat: "unat (snd (rng st)) = (1664525 * unat st + 1013904223) mod 2 ^ 32"
  by (simp add: rng_def Let_def unat_word_ariths mod_simps)

lemma rng_range: "0 \<le> fst (rng st) \<and> fst (rng st) < 1"
proof -
  have "unat (snd (rng st)) < 2 ^ 32"
    using unsigned_less [of "snd (rng st)"] by simp
  then have "real (unat (snd (rng st))) < 2 ^ 32"
    by (metis of_nat_less_iff of_nat_numeral of_nat_power)
  then show ?thesis by (simp add: rng_def Let_def del: of_nat_unat)
qed

text \<open>
  Claim C2, as stated: for every seed key \<open>s\<close> the first uniform value is
  \<open>((1664525 * hash s + 1013904223) mod 2^32) / 2^32\<close>. It fails for a key whose hash is
  \<open>0\<close>: the guard \<^verbatim>\<open>seed || 1\<close> of \<open>createRng\<close> then starts the generator from \<open>1\<close>. The
  key \<^verbatim>\<open>7oE486\<close> (code units 55, 111, 69, 52, 56, 54) hashes to \<open>0\<close>; its first draw is
  \<open>1015568748 / 2^32\<close>, where the claim's formula gives \<open>1013904223 / 2^32\<close>.
\<close>

theorem first_draw_zero_hash_counterexample:
  "hashSeed [55, 111, 69, 52, 56, 54] = 0
   \<and> fst (rng (createRng (hashSeed [55, 111, 69, 52, 56, 54]))) = 1015568748 / 4294967296
   \<and> real ((1664525 * unat (hashSeed [55, 111, 69, 52, 56, 54]) + 1013904223) mod 2 ^ 32) / 2 ^ 32
       = 1013904223 / 4294967296
   \<and> fst (rng (createRng (hashSeed [55, 111, 69, 52, 56, 54])))
       \<noteq> real ((1664525 * unat (hashSeed [55, 111, 69, 52, 56, 54]) + 1013904223) mod 2 ^ 32) / 2 ^ 32"
  by (simp add: hashSeed_def createRng_def rng_def Let_def)

text \<open>
  Claim C2, amended: the hash is the 32-bit FNV-1a fold (start \<open>2166136261\<close>; per code
  unit, XOR then multiply by \<open>16777619\<close> modulo \<open>2^32\<close>); the generator starts from the hash
  of the key, or from \<open>1\<close> when that hash is \<open>0\<close>; every draw replaces the state by
  \<open>(1664525 * state + 1013904223) mod 2^32\<close> and returns the new state divided by \<open>2^32\<close>,
  a value in \<open>[0, 1)\<close>; so the first uniform value for a key is
  \<open>((1664525 * h + 1013904223) mod 2^32) / 2^32\<close> with \<open>h\<close> the starting state.
\<close>

theorem prng_stream:
  "hashSeed [] = 2166136261
   \<and> unat (hashSeed (s @ [c])) = (unat (hashSeed s XOR ucast c) * 16777619) mod 2 ^ 32
   \<and> createRng (hashSeed s) = (if hashSeed s = 0 then 1 else hashSeed s)
   \<and> unat (snd (rng st)) = (1664525 * unat st + 1013904223) mod 2 ^ 32
   \<and> fst (rng st) = real (unat (snd (rng st))) / 2 ^ 32
   \<and> 0 \<le> fst (rng st) \<and> fst (rng st) < 1
   \<and> fst (rng (createRng (hashSeed s))) =
       real ((1664525 * (if hashSeed s = 0 then 1 else unat (hashSeed s)) + 1013904223) mod 2 ^ 32)
         / 2 ^ 32"
proof -
  have a: "hashSeed [] = 2166136261" by (simp add: hashSeed_def)
  have b: "unat (hashSeed (s @ [c])) = (unat (hashSeed s XOR ucast c) * 16777619) mod 2 ^ 32"
    by (simp add: hashSeed_snoc unat_word_ariths)
  have c: "createRng (hashSeed s) = (if hashSeed s = 0 then 1 else hashSeed s)"
    by (simp add: createRng_def)
  have d: "fst (rng st) = real (unat (snd (rng st))) / 2 ^ 32"
    by (simp add: rng_def Let_def)
  have e: "fst (rng (createRng (hashSeed s))) =
       real ((1664525 * (if hashSeed s = 0 then 1 else unat (hashSeed s)) + 1013904223) mod 2 ^ 32)
         / 2 ^ 32"
    using rng_unat [of "createRng (hashSeed s)"]
    by (simp add: rng_def Let_def createRng_def del: of_nat_unat)
  show ?thesis using a b c d e rng_unat rng_range by blast
qed

text \<open>The key \<^verbatim>\<open>abc\<close>: its hash is \<open>440920331\<close> and its first draw \<open>4211288814 / 2^32\<close>.\<close>

theorem prng_stream_witness:
  "hashSeed [97, 98, 99] = 440920331
   \<and> createRng (hashSeed [97, 98, 99]) = 440920331
   \<and> fst (rng (createRng (hashSeed [97, 98, 99]))) = 4211288814 / 4294967296"
  using prng_stream [of "[97, 98, 99]" 0 0]
  by (simp add: hashSeed_def createRng_def rng_def Let_def)

section \<open>The triangular sampler\<close>

lemma sqrt_le_side: "0 \<le> d \<Longrightarrow> x \<le> d * d \<Longrightarrow> sqrt x \<le> d"
  by (metis abs_of_nonneg real_sqrt_abs2 real_sqrt_le_iff)

lemma triangular_mid:
  assumes "mn < mx" "0 \<le> u" "u < 1" "gen st = (u, st')"
  shows "mn \<le> fst (triangularSample mn mx ((mn + mx) / 2) gen st)
       \<and> fst (triangularSample mn mx ((mn + mx) / 2) gen st) \<le> mx"
proof -
  define d where "d = mx - mn"
  have d: "0 < d" using assms by (simp add: d_def)
  have m1: "(mn + mx) / 2 - mn = d / 2" by (simp add: d_def field_simps)
  have m2: "mx - (mn + mx) / 2 = d / 2" by (simp add: d_def field_simps)
  have dd: "0 \<le> d * d" by simp
  have lo: "0 \<le> u * d * (d / 2)" using assms d by simp
  have "u * d * (d / 2) = (u / 2) * (d * d)" by simp
  also have "\<dots> \<le> 1 * (d * d)" using assms dd by (intro mult_right_mono) auto
  finally have up1: "u * d * (d / 2) \<le> d * d" by simp
  have lo2: "0 \<le> (1 - u) * d * (d / 2)" using assms d by simp
  have "(1 - u) * d * (d / 2) = ((1 - u) / 2) * (d * d)" by simp
  also have "\<dots> \<le> 1 * (d * d)" using assms dd by (intro mult_right_mono) auto
  finally have up2: "(1 - u) * d * (d / 2) \<le> d * d" by simp
  have s1: "0 \<le> sqrt (u * d * (d / 2))" "sqrt (u * d * (d / 2)) \<le> d"
    using lo up1 d by (simp_all add: sqrt_le_side)
  have s2: "0 \<le> sqrt ((1 - u) * d * (d / 2))" "sqrt ((1 - u) * d * (d / 2)) \<le> d"
    using lo2 up2 d by (simp_all add: sqrt_le_side)
  have nle: "\<not> mx \<le> mn" using assms by simp
  show ?thesis
    unfolding triangularSample_def using s1 s2 nle
    by (simp add: assms(4) Let_def m1 m2 d_def [symmetric]) (auto simp: d_def)
qed

text \<open>
  Claim C7: when \<open>max \<le> min\<close> the sampler returns exactly \<open>min\<close>, for every mode and
  every generator, and it does not draw (the generator state is returned unchanged, and
  the quotient by \<open>max - min\<close> is not computed); when \<open>min < max\<close>, the mode is the
  midpoint and the uniform value drawn is in \<open>[0, 1)\<close>, the sample lies in \<open>[min, max]\<close>.
\<close>

theorem triangularSample_bounds:
  "(mx \<le> mn \<longrightarrow> triangularSample mn mx mode gen st = (mn, st))
   \<and> (mn < mx \<and> 0 \<le> fst (gen st) \<and> fst (gen st) < 1 \<longrightarrow>
        mn \<le> fst (triangularSample mn mx ((mn + mx) / 2) gen st)
        \<and> fst (triangularSample mn mx ((mn + mx) / 2) gen st) \<le> mx)"
  using triangular_mid [of mn mx "fst (gen st)" gen st "snd (gen st)"]
  by (simp add: triangularSample_def)

text \<open>
  A single-point range, and the range \<open>[0, 4]\<close> with the generator of the program in
  state \<open>7\<close>, whose draw is \<open>1025555898 / 2^32\<close>.
\<close>

theorem triangularSample_bounds_witness:
  "(3::real) \<le> 3 \<and> triangularSample 3 3 3 rng 7 = (3, 7)
   \<and> (0::real) < 4 \<and> fst (rng 7) = 1025555898 / 4294967296
   \<and> 0 \<le> fst (rng 7) \<and> fst (rng 7) < 1
   \<and> 0 \<le> fst (triangularSample 0 4 ((0 + 4) / 2) rng 7)
   \<and> fst (triangularSample 0 4 ((0 + 4) / 2) rng 7) \<le> 4"
proof -
  have u: "fst (rng 7) = 1025555898 / 4294967296"
    by (simp add: rng_def Let_def)
  show ?thesis
    using triangularSample_bounds [where mn = 3 and mx = 3 and mode = 3 and gen = rng and st = 7]
      triangularSample_bounds [where mn = 0 and mx = 4 and gen = rng and st = 7]
    by (simp add: u)
qed

section \<open>The Monte Carlo estimator\<close>

lemma math_round_mono: "a \<le> b \<Longrightarrow> math_round a \<le> math_round b"
  by (simp add: math_round_def floor_mono)

lemma round2_mono: "a \<le> b \<Longrightarrow> round2 a \<le> round2 b"
  by (simp add: round2_def math_round_mono divide_right_mono)

lemma round2_zero: "round2 0 = 0"
  by (simp add: round2_def math_round_def)

lemma percentile_index:
  assumes "xs \<noteq> []"
  shows "nat (min (int (length xs) - 1) (max 0 \<lfloor>(p / 100) * real (length xs)\<rfloor>)) < length xs"
  using assms by (cases xs) auto

lemma clamp_mono: "(a::int) \<le> b \<Longrightarrow> min n (max 0 a) \<le> min n (max 0 b)"
  by linarith

lemma percentile_mono:
  assumes "sorted xs" "p \<le> q"
  shows "percentile xs p \<le> percentile xs q"
proof (cases "xs = []")
  case True
  then show ?thesis by (simp add: percentile_def)
next
  case False
  have "(p / 100) * real (length xs) \<le> (q / 100) * real (length xs)"
    using assms(2) by (simp add: mult_right_mono divide_right_mono)
  then have "\<lfloor>(p / 100) * real (length xs)\<rfloor> \<le> \<lfloor>(q / 100) * real (length xs)\<rfloor>"
    by (rule floor_mono)
  then have le: "nat (min (int (length xs) - 1) (max 0 \<lfloor>(p / 100) * real (length xs)\<rfloor>))
      \<le> nat (min (int (length xs) - 1) (max 0 \<lfloor>(q / 100) * real (length xs)\<rfloor>))"
    by (intro nat_mono clamp_mono)
  show ?thesis
    using False sorted_nth_mono [OF assms(1) le percentile_index [OF False]]
    by (simp add: percentile_def Let_def)
qed

lemma toTriple_ordered:
  assumes "a \<le> b" "b \<le> c"
  shows "p10 (toTriple a b c) \<le> p50 (toTriple a b c)
       \<and> p50 (toTriple a b c) \<le> p90 (toTriple a b c)"
  using assms by (simp add: toTriple_def round2_mono)

lemma percentile_triple_ordered:
  "p10 (toTriple (percentile (sort xs) 10) (percentile (sort xs) 50) (percentile (sort xs) 90))
     \<le> p50 (toTriple (percentile (sort xs) 10) (percentile (sort xs) 50) (percentile (sort xs) 90))
   \<and> p50 (toTriple (percentile (sort xs) 10) (percentile (sort xs) 50) (percentile (sort xs) 90))
     \<le> p90 (toTriple (percentile (sort xs) 10) (percentile (sort xs) 50) (percentile (sort xs) 90))"
  by (rule toTriple_ordered) (simp_all add: percentile_mono)

lemma toUsd_mono:
  assumes "0 < base" "a \<le> b"
  shows "round2 (a * base / 100) \<le> round2 (b * base / 100)"
  using assms by (intro round2_mono mult_right_mono divide_right_mono) simp_all

lemma trials_Nil: "trials n [] ps ds st = (ps @ replicate n 0, ds @ replicate n 0)"
  by (induction n arbitrary: ps ds) (simp_all add: replicate_app_Cons_same)

lemma sort_replicate: "sort (replicate n (x::real)) = replicate n x"
  by (simp add: sorted_sort_id sorted_replicate)

lemma percentile_replicate: "percentile (replicate n 0) p = 0"
proof (cases "n = 0")
  case True
  then show ?thesis by (simp add: percentile_def)
next
  case False
  then have ne: "replicate n (0::real) \<noteq> []" by simp
  show ?thesis
    using percentile_index [OF ne, of p] ne
    by (simp add: percentile_def Let_def)
qed

text \<open>The estimate for \<open>exampleArgs\<close>: two trials, each summing the one fixed driver.\<close>

lemma exampleArgs_estimate:
  "buildProbabilisticEstimate exampleArgs =
     \<lparr>est_baselineCostUsd = Some 1000,
      impactPct = \<lparr>p10 = 5, p50 = 5, p90 = 5\<rparr>,
      scheduleDays = \<lparr>p10 = 10, p50 = 10, p90 = 10\<rparr>,
      impactCostUsd = Some \<lparr>p10 = 50, p50 = 50, p90 = 50\<rparr>,
      methodology = methodologyText, est_sampleSize = 2\<rparr>"
  by (simp add: buildProbabilisticEstimate_def exampleArgs_def fixedDriver_def exampleDriver_def
      numeral_2_eq_2 sampleDriver_def triangularSample_def percentile_def toTriple_def
      round2_def math_round_def Let_def)

text \<open>
  Claim C1: the three percentile triples of the estimate are determined by the cost-driver
  list, the baseline cost, the seed key and the sample size. Two argument objects that
  agree on these four fields (and may differ in any further field) give the same
  \<open>impactPct\<close>, \<open>scheduleDays\<close> and \<open>impactCostUsd\<close>: the generator state is created inside
  the call from the seed key and nothing else is read.
\<close>

theorem buildProbabilisticEstimate_deterministic:
  fixes a :: "'a EstimateArgs_scheme" and b :: "'b EstimateArgs_scheme"
  assumes "costDrivers a = costDrivers b" "baselineCostUsd a = baselineCostUsd b"
    "seedKey a = seedKey b" "sampleSize a = sampleSize b"
  shows "impactPct (buildProbabilisticEstimate a) = impactPct (buildProbabilisticEstimate b)
     \<and> scheduleDays (buildProbabilisticEstimate a) = scheduleDays (buildProbabilisticEstimate b)
     \<and> impactCostUsd (buildProbabilisticEstimate a) = impactCostUsd (buildProbabilisticEstimate b)"
  using assms by (simp add: buildProbabilisticEstimate_def)

text \<open>Two argument objects with the same four fields, the second with a further field.\<close>

theorem buildProbabilisticEstimate_deterministic_witness:
  "costDrivers exampleArgs = costDrivers (EstimateArgs.extend exampleArgs ''request-17'')
   \<and> baselineCostUsd exampleArgs = baselineCostUsd (EstimateArgs.extend exampleArgs ''request-17'')
   \<and> seedKey exampleArgs = seedKey (EstimateArgs.extend exampleArgs ''request-17'')
   \<and> sampleSize exampleArgs = sampleSize (EstimateArgs.extend exampleArgs ''request-17'')
   \<and> impactPct (buildProbabilisticEstimate (EstimateArgs.extend exampleArgs ''request-17''))
       = \<lparr>p10 = 5, p50 = 5, p90 = 5\<rparr>
   \<and> scheduleDays (buildProbabilisticEstimate (EstimateArgs.extend exampleArgs ''request-17''))
       = \<lparr>p10 = 10, p50 = 10, p90 = 10\<rparr>
   \<and> impactCostUsd (buildProbabilisticEstimate (EstimateArgs.extend exampleArgs ''request-17''))
       = Some \<lparr>p10 = 50, p50 = 50, p90 = 50\<rparr>"
proof -
  have h: "costDrivers exampleArgs = costDrivers (EstimateArgs.extend exampleArgs ''request-17'')"
    "baselineCostUsd exampleArgs = baselineCostUsd (EstimateArgs.extend exampleArgs ''request-17'')"
    "seedKey exampleArgs = seedKey (EstimateArgs.extend exampleArgs ''request-17'')"
    "sampleSize exampleArgs = sampleSize (EstimateArgs.extend exampleArgs ''request-17'')"
    by (simp_all add: EstimateArgs.defs exampleArgs_def)
  show ?thesis
    using h buildProbabilisticEstimate_deterministic [OF h] by (simp add: exampleArgs_estimate)
qed

text \<open>
  Claim C3: in every estimate, for every cost-driver list and every sample size (the
  default included), \<open>p10 \<le> p50 \<le> p90\<close> holds in \<open>impactPct\<close> and in \<open>scheduleDays\<close>, and
  in \<open>impactCostUsd\<close> whenever it is present.
\<close>

theorem percentiles_ordered:
  "p10 (impactPct (buildProbabilisticEstimate args)) \<le> p50 (impactPct (buildProbabilisticEstimate args))
   \<and> p50 (impactPct (buildProbabilisticEstimate args)) \<le> p90 (impactPct (buildProbabilisticEstimate args))
   \<and> p10 (scheduleDays (buildProbabilisticEstimate args)) \<le> p50 (scheduleDays (buildProbabilisticEstimate args))
   \<and> p50 (scheduleDays (buildProbabilisticEstimate args)) \<le> p90 (scheduleDays (buildProbabilisticEstimate args))
   \<and> (\<forall>usd. impactCostUsd (buildProbabilisticEstimate args) = Some usd \<longrightarrow>
         p10 usd \<le> p50 usd \<and> p50 usd \<le> p90 usd)"
proof -
  obtain ps ds where t: "trials (case sampleSize args of None \<Rightarrow> 2000 | Some n \<Rightarrow> n)
      (costDrivers args) [] [] (createRng (hashSeed (seedKey args))) = (ps, ds)"
    by (cases "trials (case sampleSize args of None \<Rightarrow> 2000 | Some n \<Rightarrow> n)
      (costDrivers args) [] [] (createRng (hashSeed (seedKey args)))") auto
  show ?thesis
    using percentile_triple_ordered [of ps] percentile_triple_ordered [of ds]
    by (auto simp: buildProbabilisticEstimate_def Let_def t toUsd_mono
        split: option.splits if_splits)
qed

theorem percentiles_ordered_witness:
  "impactCostUsd (buildProbabilisticEstimate exampleArgs) = Some \<lparr>p10 = 50, p50 = 50, p90 = 50\<rparr>
   \<and> p10 \<lparr>p10 = 50, p50 = 50, p90 = 50 :: real\<rparr> \<le> p50 \<lparr>p10 = 50, p50 = 50, p90 = 50 :: real\<rparr>
   \<and> p50 \<lparr>p10 = 50, p50 = 50, p90 = 50 :: real\<rparr> \<le> p90 \<lparr>p10 = 50, p50 = 50, p90 = 50 :: real\<rparr>
   \<and> p10 (impactPct (buildProbabilisticEstimate exampleArgs))
       \<le> p50 (impactPct (buildProbabilisticEstimate exampleArgs))
   \<and> p50 (scheduleDays (buildProbabilisticEstimate exampleArgs))
       \<le> p90 (scheduleDays (buildProbabilisticEstimate exampleArgs))"
  using percentiles_ordered [of exampleArgs] by (simp add: exampleArgs_estimate)

text \<open>
  Claim C8: for an empty cost-driver list the estimate is returned (the function is
  total) with \<open>impactPct\<close> and \<open>scheduleDays\<close> both \<open>{p10: 0, p50: 0, p90: 0}\<close>, for every
  seed key, sample size and baseline cost.
\<close>

theorem empty_drivers_zero:
  "costDrivers args = [] \<Longrightarrow>
     impactPct (buildProbabilisticEstimate args) = \<lparr>p10 = 0, p50 = 0, p90 = 0\<rparr>
     \<and> scheduleDays (buildProbabilisticEstimate args) = \<lparr>p10 = 0, p50 = 0, p90 = 0\<rparr>"
  by (simp add: buildProbabilisticEstimate_def Let_def trials_Nil sort_replicate
      percentile_replicate toTriple_def round2_zero)

theorem empty_drivers_zero_witness:
  "costDrivers (exampleArgs\<lparr>costDrivers := [], sampleSize := None\<rparr>) = []
   \<and> impactPct (buildProbabilisticEstimate (exampleArgs\<lparr>costDrivers := [], sampleSize := None\<rparr>))
       = \<lparr>p10 = 0, p50 = 0, p90 = 0\<rparr>
   \<and> scheduleDays (buildProbabilisticEstimate (exampleArgs\<lparr>costDrivers := [], sampleSize := None\<rparr>))
       = \<lparr>p10 = 0, p50 = 0, p90 = 0\<rparr>"
  using empty_drivers_zero [of "exampleArgs\<lparr>costDrivers := [], sampleSize := None\<rparr>"]
  by simp

section \<open>The rule and action resolvers\<close>

lemma error_TypeError: "(e::error) = TypeError"
  by (cases e) simp

lemma mapRules_Inr_D:
  "mapRules f rules = Inr ds \<Longrightarrow> list_all2 (\<lambda>rule d. f rule = Inr d) rules ds"
  by (induction rules arbitrary: ds) (auto split: sum.splits)

lemma mapRules_Inr_I:
  "list_all2 (\<lambda>rule d. f rule = Inr d) rules ds \<Longrightarrow> mapRules f rules = Inr ds"
  by (induction rules ds rule: list_all2_induct) auto

lemma mapRules_Inr:
  "mapRules f rules = Inr ds \<longleftrightarrow> list_all2 (\<lambda>rule d. f rule = Inr d) rules ds"
  using mapRules_Inr_D mapRules_Inr_I by blast

lemma mapRules_Inl:
  "(\<exists>e. mapRules f rules = Inl e) \<longleftrightarrow> (\<exists>rule\<in>set rules. \<exists>e. f rule = Inl e)"
  by (induction rules) (auto split: sum.splits)







lemma resolveRule_Some:
  assumes "resolveRule lookup rule = Inr (Some d)"
  shows "\<exists>s sev delta. lookup (signalId rule) = Some s
     \<and> asSeverity (signal_severity s) = Some sev \<and> deltas rule sev = Some delta
     \<and> driver_severity d = sev \<and> driver_signalId d = signalId rule
     \<and> driver_id d = ''driver-'' @ signalId rule \<and> driver_label d = signal_label s"
  using assms
  by (auto simp: resolveRule_def Let_def split: option.splits prod.splits)

lemma resolveRule_Inl:
  "(\<exists>e. resolveRule lookup rule = Inl e) \<longleftrightarrow>
     (\<exists>s sev. lookup (signalId rule) = Some s \<and> asSeverity (signal_severity s) = Some sev
        \<and> deltas rule sev = None)"
  by (auto simp: resolveRule_def Let_def split: option.splits prod.splits)



lemma buildCostDrivers_Inr:
  "buildCostDrivers cfg signals = Inr ds \<Longrightarrow>
     \<exists>rs. resolvedDrivers cfg signals = Inr rs \<and> ds = sort_key (\<lambda>d. - driverRank d) rs"
  by (auto simp: buildCostDrivers_def split: sum.splits)










lemma subseq_resolved:
  "list_all2 (\<lambda>rule d. resolveRule lookup rule = Inr d) rules ds \<Longrightarrow>
     subseq (map driver_signalId (dropNull ds)) (map signalId rules)"
proof (induction rules ds rule: list_all2_induct)
  case Nil
  then show ?case by simp
next
  case (Cons rule rules d ds)
  show ?case
  proof (cases d)
    case None
    with Cons show ?thesis by (simp add: list_emb_Cons)
  next
    case (Some x)
    with Cons(1) have "driver_signalId x = signalId rule"
      by (auto dest: resolveRule_Some)
    with Some Cons show ?thesis by simp
  qed
qed

lemma buildCostDrivers_Inl:
  "buildCostDrivers cfg signals = Inl TypeError \<longleftrightarrow>
     (\<exists>rule\<in>set (costRules cfg). \<exists>s sev. byId signals (signalId rule) = Some s
        \<and> asSeverity (signal_severity s) = Some sev \<and> deltas rule sev = None)"
proof -
  have "buildCostDrivers cfg signals = Inl TypeError \<longleftrightarrow>
      (\<exists>e. mapRules (resolveRule (byId signals)) (costRules cfg) = Inl e)"
    using error_TypeError
    by (auto simp: buildCostDrivers_def resolvedDrivers_def split: sum.splits)
  then show ?thesis by (simp add: mapRules_Inl resolveRule_Inl)
qed

lemma buildContingency_Inl:
  "buildContingency cfg signals = Inl TypeError \<longleftrightarrow> contingencyBands cfg = []"
proof (cases "contingencyBands cfg = []")
  case True
  then show ?thesis by (simp add: buildContingency_def)
next
  case False
  then have "sort_key (\<lambda>b. - minScore b) (contingencyBands cfg) \<noteq> []"
    by (metis length_0_conv length_sort)
  with False show ?thesis
    by (simp add: buildContingency_def Let_def split: option.splits)
qed

text \<open>The resolvers at the example inputs.\<close>

lemma example_drivers:
  "buildCostDrivers exampleConfig [floodHigh, slopeLow, seismicHigh] =
     Inr [exampleDriver ''flood-zone'' KeyHigh 5 12 10 25,
          exampleDriver ''seismic-design-category'' KeyHigh 5 12 10 25,
          exampleDriver ''slope'' KeyLow 0 1 0 2]"
  by (simp add: buildCostDrivers_def resolvedDrivers_def resolveRule_def byId_def
      exampleConfig_def exampleRule_def exampleDriver_def floodHigh_def slopeLow_def
      seismicHigh_def exampleSignal_def driverRank_def asSeverity_def rankSeverity_def)

lemma example_resolved:
  "resolvedDrivers exampleConfig [floodHigh, slopeLow, seismicHigh] =
     Inr [exampleDriver ''slope'' KeyLow 0 1 0 2,
          exampleDriver ''flood-zone'' KeyHigh 5 12 10 25,
          exampleDriver ''seismic-design-category'' KeyHigh 5 12 10 25]"
  by (simp add: resolvedDrivers_def resolveRule_def byId_def
      exampleConfig_def exampleRule_def exampleDriver_def floodHigh_def slopeLow_def
      seismicHigh_def exampleSignal_def asSeverity_def)







lemma broken_high: "buildCostDrivers brokenConfig [floodHigh] = Inl TypeError"
  by (simp add: buildCostDrivers_def resolvedDrivers_def resolveRule_def byId_def
      brokenConfig_def brokenRule_def floodHigh_def exampleSignal_def asSeverity_def)

lemma broken_medium:
  "buildCostDrivers brokenConfig [floodMedium]
     = Inr [exampleDriver ''flood-zone'' KeyMedium 2 5 3 10]"
  by (simp add: buildCostDrivers_def resolvedDrivers_def resolveRule_def byId_def
      brokenConfig_def brokenRule_def floodMedium_def exampleSignal_def exampleDriver_def
      asSeverity_def)

lemma broken_bands: "buildContingency brokenConfig signals = Inl TypeError"
  by (simp add: buildContingency_def brokenConfig_def)

text \<open>
  Claim C4, as stated: a configuration in which a rule's \<open>deltas\<close> lacks a severity, or
  whose band ladder is empty, is rejected when the configuration is loaded and never
  faults during a request. It fails: \<open>brokenConfig\<close> has a rule without the key
  \<^verbatim>\<open>high\<close> and an empty ladder, it is accepted unchanged, and a request with a
  high-severity \<^verbatim>\<open>flood-zone\<close> signal raises \<^verbatim>\<open>TypeError\<close> in \<open>buildCostDrivers\<close> and in
  \<open>buildContingency\<close>.
\<close>

theorem broken_config_accepted_counterexample:
  "deltas brokenRule KeyHigh = None
   \<and> costRules brokenConfig = [brokenRule]
   \<and> contingencyBands brokenConfig = []
   \<and> config brokenConfig = Inr brokenConfig
   \<and> buildCostDrivers brokenConfig [floodHigh] = Inl TypeError
   \<and> buildContingency brokenConfig [floodHigh] = Inl TypeError"
proof -
  have a: "deltas brokenRule KeyHigh = None" by (simp add: brokenRule_def)
  have b: "costRules brokenConfig = [brokenRule]" "contingencyBands brokenConfig = []"
    by (simp_all add: brokenConfig_def)
  have c: "config brokenConfig = Inr brokenConfig" by (simp add: config_def)
  show ?thesis using a b c broken_high broken_bands by blast
qed

text \<open>
  Claim C4, amended: the configuration is taken as it is; loading it checks nothing and
  never fails. A rule whose \<open>deltas\<close> lacks a severity makes \<open>buildCostDrivers\<close> raise
  \<^verbatim>\<open>TypeError\<close> during a request exactly when the signal found for that rule (the last
  one with the rule's \<open>signalId\<close>) has that severity; an empty band ladder makes
  \<open>buildContingency\<close> raise \<^verbatim>\<open>TypeError\<close> on every request, and a non-empty one never.
\<close>

theorem config_not_validated:
  "config cfg = Inr cfg
   \<and> (buildCostDrivers cfg signals = Inl TypeError \<longleftrightarrow>
        (\<exists>rule\<in>set (costRules cfg). \<exists>s sev. byId signals (signalId rule) = Some s
           \<and> asSeverity (signal_severity s) = Some sev \<and> deltas rule sev = None))
   \<and> (buildContingency cfg signals = Inl TypeError \<longleftrightarrow> contingencyBands cfg = [])"
  using buildCostDrivers_Inl buildContingency_Inl by (simp add: config_def)

text \<open>
  The rule without \<^verbatim>\<open>high\<close> resolves a medium-severity signal and faults on a
  high-severity one; the configuration with a band resolves a contingency.
\<close>

theorem config_not_validated_witness:
  "config brokenConfig = Inr brokenConfig
   \<and> brokenRule \<in> set (costRules brokenConfig)
   \<and> byId [floodMedium, floodHigh] (signalId brokenRule) = Some floodHigh
   \<and> asSeverity (signal_severity floodHigh) = Some KeyHigh
   \<and> deltas brokenRule KeyHigh = None
   \<and> buildCostDrivers brokenConfig [floodMedium, floodHigh] = Inl TypeError
   \<and> buildCostDrivers brokenConfig [floodMedium] \<noteq> Inl TypeError
   \<and> contingencyBands exampleConfig \<noteq> []
   \<and> buildContingency exampleConfig [floodMedium] \<noteq> Inl TypeError"
proof -
  have a: "brokenRule \<in> set (costRules brokenConfig)"
    by (simp add: brokenConfig_def)
  have b: "byId [floodMedium, floodHigh] (signalId brokenRule) = Some floodHigh"
    by (simp add: byId_def brokenRule_def floodMedium_def floodHigh_def exampleSignal_def)
  have c: "asSeverity (signal_severity floodHigh) = Some KeyHigh"
    by (simp add: floodHigh_def exampleSignal_def asSeverity_def)
  have d: "deltas brokenRule KeyHigh = None"
    by (simp add: brokenRule_def)
  have e: "contingencyBands exampleConfig \<noteq> []"
    by (simp add: exampleConfig_def)
  from a b c d have f: "\<exists>rule\<in>set (costRules brokenConfig). \<exists>s sev.
      byId [floodMedium, floodHigh] (signalId rule) = Some s
      \<and> asSeverity (signal_severity s) = Some sev \<and> deltas rule sev = None"
    by blast
  show ?thesis
    using a b c d e f config_not_validated [of brokenConfig "[floodMedium, floodHigh]"]
      config_not_validated [of exampleConfig "[floodMedium]"]
    by (simp add: broken_medium)
qed




lemma driverRank_values: "driverRank d = 3 \<or> driverRank d = 2 \<or> driverRank d = 1"
  by (cases "driver_severity d") (simp_all add: driverRank_def rankSeverity_def)

text \<open>
  Claim C6: the list returned by \<open>buildCostDrivers\<close> is in descending order of severity
  rank (high 3, medium 2, low 1), and drivers of equal rank keep the order of their rules
  in the rule table: for every rank, the drivers of that rank are, in the same order,
  those of the list before the sort, whose signal ids follow the rule table.
\<close>

theorem drivers_sorted_stable:
  assumes "buildCostDrivers cfg signals = Inr ds"
  shows "sorted_wrt (\<lambda>a b. driverRank a \<ge> driverRank b) ds
     \<and> (\<exists>rs. resolvedDrivers cfg signals = Inr rs
          \<and> subseq (map driver_signalId rs) (map signalId (costRules cfg))
          \<and> (\<forall>k. filter (\<lambda>d. driverRank d = k) ds = filter (\<lambda>d. driverRank d = k) rs))
     \<and> rankSeverity ''high'' = 3 \<and> rankSeverity ''medium'' = 2 \<and> rankSeverity ''low'' = 1"
proof -
  from assms obtain rs where rs: "resolvedDrivers cfg signals = Inr rs"
    and ds: "ds = sort_key (\<lambda>d. - driverRank d) rs"
    by (auto dest!: buildCostDrivers_Inr)
  have "sorted (map (\<lambda>d. - driverRank d) ds)" unfolding ds by (rule sorted_sort_key)
  then have s: "sorted_wrt (\<lambda>a b. driverRank a \<ge> driverRank b) ds"
    by (simp add: sorted_map)
  have st: "filter (\<lambda>d. driverRank d = k) ds = filter (\<lambda>d. driverRank d = k) rs" for k
    using sort_key_stable [of "\<lambda>d. - driverRank d" "- k" rs] by (simp add: ds)
  from rs obtain os where os: "mapRules (resolveRule (byId signals)) (costRules cfg) = Inr os"
    "rs = dropNull os" by (auto simp: resolvedDrivers_def split: sum.splits)
  then have sub: "subseq (map driver_signalId rs) (map signalId (costRules cfg))"
    by (simp add: mapRules_Inr subseq_resolved)
  show ?thesis using s st sub rs by (auto simp: rankSeverity_def)
qed

text \<open>
  Rules in the order slope, flood, wildfire, seismic; signals flood (high), slope (low),
  seismic (high). The two high drivers come first, flood before seismic as in the rule
  table, then the low one.
\<close>

theorem drivers_sorted_stable_witness:
  "buildCostDrivers exampleConfig [floodHigh, slopeLow, seismicHigh] =
     Inr [exampleDriver ''flood-zone'' KeyHigh 5 12 10 25,
          exampleDriver ''seismic-design-category'' KeyHigh 5 12 10 25,
          exampleDriver ''slope'' KeyLow 0 1 0 2]
   \<and> map signalId (costRules exampleConfig)
       = [''slope'', ''flood-zone'', ''wildfire-risk'', ''seismic-design-category'']
   \<and> sorted_wrt (\<lambda>a b. driverRank a \<ge> driverRank b)
        [exampleDriver ''flood-zone'' KeyHigh 5 12 10 25,
         exampleDriver ''seismic-design-category'' KeyHigh 5 12 10 25,
         exampleDriver ''slope'' KeyLow 0 1 0 2]
   \<and> filter (\<lambda>d. driverRank d = 3)
        [exampleDriver ''flood-zone'' KeyHigh 5 12 10 25,
         exampleDriver ''seismic-design-category'' KeyHigh 5 12 10 25,
         exampleDriver ''slope'' KeyLow 0 1 0 2]
       = filter (\<lambda>d. driverRank d = 3)
          [exampleDriver ''slope'' KeyLow 0 1 0 2,
           exampleDriver ''flood-zone'' KeyHigh 5 12 10 25,
           exampleDriver ''seismic-design-category'' KeyHigh 5 12 10 25]"
proof -
  have ids: "map signalId (costRules exampleConfig)
      = [''slope'', ''flood-zone'', ''wildfire-risk'', ''seismic-design-category'']"
    by (simp add: exampleConfig_def exampleRule_def)
  from drivers_sorted_stable [OF example_drivers]
  have s: "sorted_wrt (\<lambda>a b. driverRank a \<ge> driverRank b)
        [exampleDriver ''flood-zone'' KeyHigh 5 12 10 25,
         exampleDriver ''seismic-design-category'' KeyHigh 5 12 10 25,
         exampleDriver ''slope'' KeyLow 0 1 0 2]"
    by blast
  from drivers_sorted_stable [OF example_drivers]
  obtain rs where rs: "resolvedDrivers exampleConfig [floodHigh, slopeLow, seismicHigh] = Inr rs"
    and st: "\<forall>k. filter (\<lambda>d. driverRank d = k)
        [exampleDriver ''flood-zone'' KeyHigh 5 12 10 25,
         exampleDriver ''seismic-design-category'' KeyHigh 5 12 10 25,
         exampleDriver ''slope'' KeyLow 0 1 0 2] = filter (\<lambda>d. driverRank d = k) rs"
    by blast
  from rs have "rs = [exampleDriver ''slope'' KeyLow 0 1 0 2,
           exampleDriver ''flood-zone'' KeyHigh 5 12 10 25,
           exampleDriver ''seismic-design-category'' KeyHigh 5 12 10 25]"
    by (simp add: example_resolved)
  with st have f: "filter (\<lambda>d. driverRank d = 3)
        [exampleDriver ''flood-zone'' KeyHigh 5 12 10 25,
         exampleDriver ''seismic-design-category'' KeyHigh 5 12 10 25,
         exampleDriver ''slope'' KeyLow 0 1 0 2]
       = filter (\<lambda>d. driverRank d = 3)
          [exampleDriver ''slope'' KeyLow 0 1 0 2,
           exampleDriver ''flood-zone'' KeyHigh 5 12 10 25,
           exampleDriver ''seismic-design-category'' KeyHigh 5 12 10 25]"
    by blast
  show ?thesis using example_drivers ids s f by blast
qed

section \<open>The confidence scorer\<close>

lemma round_half_even_cases: "round_half_even x = \<lfloor>x\<rfloor> \<or> round_half_even x = \<lfloor>x\<rfloor> + 1"
  by (simp add: round_half_even_def Let_def)

lemma round_half_even_mono: "x \<le> y \<Longrightarrow> round_half_even x \<le> round_half_even y"
proof -
  assume xy: "x \<le> y"
  then have f: "\<lfloor>x\<rfloor> \<le> \<lfloor>y\<rfloor>" by (rule floor_mono)
  show ?thesis
  proof (cases "\<lfloor>x\<rfloor> = \<lfloor>y\<rfloor>")
    case True
    with xy show ?thesis
      by (auto simp: round_half_even_def Let_def)
  next
    case False
    with f have "\<lfloor>x\<rfloor> + 1 \<le> \<lfloor>y\<rfloor>" by simp
    moreover have "round_half_even x \<le> \<lfloor>x\<rfloor> + 1"
      using round_half_even_cases [of x] by auto
    moreover have "\<lfloor>y\<rfloor> \<le> round_half_even y"
      using round_half_even_cases [of y] by auto
    ultimately show ?thesis by linarith
  qed
qed

lemma round_half_even_of_int: "round_half_even (of_int n) = n"
  by (simp add: round_half_even_def)

lemma round_half_even_ge: "of_int n \<le> x \<Longrightarrow> n \<le> round_half_even x"
  using round_half_even_mono [of "of_int n" x] by (simp add: round_half_even_of_int)

lemma round_half_even_le: "x \<le> of_int n \<Longrightarrow> round_half_even x \<le> n"
  using round_half_even_mono [of x "of_int n"] by (simp add: round_half_even_of_int)

lemma powr_two_int: "(2::real) powr real_of_int n = 2 powi n"
  by (simp add: powr_real_of_int')

text \<open>The exponent chosen by \<open>binary64\<close> is the one of the binade that holds the number.\<close>

lemma floor_log2_eq:
  assumes "2 powi e \<le> \<bar>x\<bar>" "\<bar>x\<bar> < 2 powi (e + 1)"
  shows "\<lfloor>log 2 \<bar>x\<bar>\<rfloor> = e"
proof -
  have p: "0 < \<bar>x\<bar>" using assms(1) by (smt (verit) zero_less_power_int)
  have "(2::real) powr (real_of_int e + 1) = 2 powi (e + 1)"
    using powr_two_int [of "e + 1"] by simp
  then show ?thesis
    using assms floor_log_eq_powr_iff [of "\<bar>x\<bar>" 2 e] p by (simp add: powr_two_int)
qed

lemma binary64_eq:
  assumes "2 powi e \<le> \<bar>x\<bar>" "\<bar>x\<bar> < 2 powi (e + 1)"
  shows "binary64 x = of_int (round_half_even (x * 2 powi (52 - e))) * 2 powi (e - 52)"
proof -
  have "x \<noteq> 0" using assms(1) by (smt (verit) zero_less_power_int)
  then show ?thesis by (simp add: binary64_def floor_log2_eq [OF assms])
qed

lemma binary64_exponent:
  assumes "x \<noteq> 0"
  shows "2 powi \<lfloor>log 2 \<bar>x\<bar>\<rfloor> \<le> \<bar>x\<bar> \<and> \<bar>x\<bar> < 2 powi (\<lfloor>log 2 \<bar>x\<bar>\<rfloor> + 1)"
proof -
  have p: "0 < \<bar>x\<bar>" using assms by simp
  have "(2::real) powr (real_of_int \<lfloor>log 2 \<bar>x\<bar>\<rfloor> + 1) = 2 powi (\<lfloor>log 2 \<bar>x\<bar>\<rfloor> + 1)"
    using powr_two_int [of "\<lfloor>log 2 \<bar>x\<bar>\<rfloor> + 1"] by simp
  then show ?thesis
    using floor_log_eq_powr_iff [of "\<bar>x\<bar>" 2 "\<lfloor>log 2 \<bar>x\<bar>\<rfloor>"] p by (simp add: powr_two_int)
qed

lemma binary64_zero: "binary64 0 = 0"
  by (simp add: binary64_def)

lemma binary64_nonneg: "0 \<le> x \<Longrightarrow> 0 \<le> binary64 x"
proof (cases "x = 0")
  case True
  then show ?thesis by (simp add: binary64_def)
next
  case False
  assume "0 \<le> x"
  then have "of_int 0 \<le> x * 2 powi (52 - \<lfloor>log 2 \<bar>x\<bar>\<rfloor>)" by simp
  then have "0 \<le> round_half_even (x * 2 powi (52 - \<lfloor>log 2 \<bar>x\<bar>\<rfloor>))"
    by (rule round_half_even_ge)
  with False show ?thesis by (simp add: binary64_def Let_def)
qed

lemma binary64_nonpos: "x \<le> 0 \<Longrightarrow> binary64 x \<le> 0"
proof (cases "x = 0")
  case True
  then show ?thesis by (simp add: binary64_def)
next
  case False
  assume "x \<le> 0"
  then have "x * 2 powi (52 - \<lfloor>log 2 \<bar>x\<bar>\<rfloor>) \<le> of_int 0"
    by (simp add: mult_nonpos_nonneg)
  then have "round_half_even (x * 2 powi (52 - \<lfloor>log 2 \<bar>x\<bar>\<rfloor>)) \<le> 0"
    by (rule round_half_even_le)
  with False show ?thesis by (simp add: binary64_def Let_def mult_nonpos_nonneg)
qed

text \<open>A positive number and its rounding lie in the same binade, closed above.\<close>

lemma binary64_binade:
  assumes "2 powi e \<le> x" "x < 2 powi (e + 1)"
  shows "2 powi e \<le> binary64 x \<and> binary64 x \<le> 2 powi (e + 1)"
proof -
  have x: "0 < x" using assms(1) by (smt (verit) zero_less_power_int)
  then have ax: "\<bar>x\<bar> = x" by simp
  have eq: "binary64 x = of_int (round_half_even (x * 2 powi (52 - e))) * 2 powi (e - 52)"
    using binary64_eq [of e x] assms ax by simp
  have s: "(2::real) powi e * 2 powi (52 - e) = 2 ^ 52"
    "(2::real) powi (e + 1) * 2 powi (52 - e) = 2 ^ 53"
    using power_int_add [of "2::real" e "52 - e"] power_int_add [of "2::real" "e + 1" "52 - e"]
    by simp_all
  have "2 powi e * 2 powi (52 - e) \<le> x * 2 powi (52 - e)"
    using assms(1) by (intro mult_right_mono) simp_all
  then have "of_int (2 ^ 52) \<le> x * 2 powi (52 - e)" using s by simp
  then have lo: "2 ^ 52 \<le> round_half_even (x * 2 powi (52 - e))" by (rule round_half_even_ge)
  have "x * 2 powi (52 - e) \<le> 2 powi (e + 1) * 2 powi (52 - e)"
    using assms(2) by (intro mult_right_mono) simp_all
  then have "x * 2 powi (52 - e) \<le> of_int (2 ^ 53)" using s by simp
  then have hi: "round_half_even (x * 2 powi (52 - e)) \<le> 2 ^ 53" by (rule round_half_even_le)
  have t: "(2::real) ^ 52 * 2 powi (e - 52) = 2 powi e"
    "(2::real) ^ 53 * 2 powi (e - 52) = 2 powi (e + 1)"
    using power_int_add [of "2::real" 52 "e - 52"] power_int_add [of "2::real" 53 "e - 52"]
    by (simp_all add: add.commute)
  have "real_of_int (2 ^ 52) * 2 powi (e - 52) \<le> binary64 x"
    unfolding eq using lo
    by (intro mult_right_mono) (simp_all only: of_int_le_iff zero_le_power_int zero_le_numeral)
  moreover have "binary64 x \<le> real_of_int (2 ^ 53) * 2 powi (e - 52)"
    unfolding eq using hi
    by (intro mult_right_mono) (simp_all only: of_int_le_iff zero_le_power_int zero_le_numeral)
  ultimately show ?thesis using t by simp
qed

lemma binary64_mono_pos:
  assumes "0 < x" "x \<le> y"
  shows "binary64 x \<le> binary64 y"
proof -
  define ex where "ex = \<lfloor>log 2 \<bar>x\<bar>\<rfloor>"
  define ey where "ey = \<lfloor>log 2 \<bar>y\<bar>\<rfloor>"
  have y: "0 < y" using assms by simp
  have bx: "2 powi ex \<le> x" "x < 2 powi (ex + 1)"
    using binary64_exponent [of x] assms(1) by (simp_all add: ex_def)
  have by': "2 powi ey \<le> y" "y < 2 powi (ey + 1)"
    using binary64_exponent [of y] y by (simp_all add: ey_def)
  have "log 2 x \<le> log 2 y" using assms by simp
  then have le: "ex \<le> ey" using assms y by (simp add: ex_def ey_def floor_mono)
  show ?thesis
  proof (cases "ex = ey")
    case True
    have "round_half_even (x * 2 powi (52 - ex)) \<le> round_half_even (y * 2 powi (52 - ex))"
      using assms(2) by (intro round_half_even_mono mult_right_mono) simp_all
    then have "real_of_int (round_half_even (x * 2 powi (52 - ex))) * 2 powi (ex - 52)
        \<le> real_of_int (round_half_even (y * 2 powi (52 - ex))) * 2 powi (ex - 52)"
      by (intro mult_right_mono) simp_all
    moreover have "binary64 x
        = real_of_int (round_half_even (x * 2 powi (52 - ex))) * 2 powi (ex - 52)"
      using binary64_eq [of ex x] bx assms(1) by simp
    moreover have "binary64 y
        = real_of_int (round_half_even (y * 2 powi (52 - ex))) * 2 powi (ex - 52)"
      using binary64_eq [of ey y] by' y True by simp
    ultimately show ?thesis by simp
  next
    case False
    with le have "ex + 1 \<le> ey" by simp
    then have "(2::real) powi (ex + 1) \<le> 2 powi ey"
      by (intro power_int_increasing) simp_all
    moreover have "binary64 x \<le> 2 powi (ex + 1)" using binary64_binade [OF bx] by simp
    moreover have "2 powi ey \<le> binary64 y" using binary64_binade [OF by'] by simp
    ultimately show ?thesis by linarith
  qed
qed

lemma binary64_mono_nonneg: "0 \<le> y \<Longrightarrow> x \<le> y \<Longrightarrow> binary64 x \<le> binary64 y"
proof (cases "0 < x")
  case True
  assume "x \<le> y"
  with True show ?thesis by (rule binary64_mono_pos)
next
  case False
  assume "0 \<le> y"
  then have "0 \<le> binary64 y" by (rule binary64_nonneg)
  moreover from False have "binary64 x \<le> 0" by (intro binary64_nonpos) simp
  ultimately show ?thesis by linarith
qed

text \<open>Doubles that the scorer meets.\<close>

lemma binary64_1: "binary64 1 = 1"
  using binary64_eq [of 0 1] by (simp add: round_half_even_def)

lemma binary64_100: "binary64 100 = 100"
  using binary64_eq [of 6 100] by (simp add: round_half_even_def)

lemma binary64_60: "binary64 60 = 60"
  using binary64_eq [of 5 60] by (simp add: round_half_even_def)

lemma binary64_point4: "binary64 (2 / 5) = 3602879701896397 / 9007199254740992"
  using binary64_eq [of "-2" "2 / 5"] by (simp add: round_half_even_def)

lemma binary64_100_point4: "binary64 (100 * binary64 (2 / 5)) = 40"
  using binary64_eq [of 5 "100 * binary64 (2 / 5)"]
  by (simp add: binary64_point4 round_half_even_def)

lemma binary64_le_1: "x \<le> 1 \<Longrightarrow> binary64 x \<le> 1"
  using binary64_mono_nonneg [of 1 x] by (simp add: binary64_1)

lemma binary64_le_100: "x \<le> 100 \<Longrightarrow> binary64 x \<le> 100"
  using binary64_mono_nonneg [of 100 x] by (simp add: binary64_100)

lemma completeness_range:
  assumes "k \<le> n" "0 < n"
  shows "0 \<le> math_round (binary64 (binary64 (real k / real n) * 100))
       \<and> math_round (binary64 (binary64 (real k / real n) * 100)) \<le> 100"
proof -
  have q: "0 \<le> real k / real n" "real k / real n \<le> 1" using assms by simp_all
  have b: "0 \<le> binary64 (real k / real n)" "binary64 (real k / real n) \<le> 1"
    using q by (simp_all add: binary64_nonneg binary64_le_1)
  then have "0 \<le> binary64 (real k / real n) * 100" "binary64 (real k / real n) * 100 \<le> 100"
    by simp_all
  then have p: "0 \<le> binary64 (binary64 (real k / real n) * 100)"
    "binary64 (binary64 (real k / real n) * 100) \<le> 100"
    by (simp_all add: binary64_nonneg binary64_le_100)
  have "math_round 0 \<le> math_round (binary64 (binary64 (real k / real n) * 100))"
    using p(1) by (rule math_round_mono)
  moreover have "math_round (binary64 (binary64 (real k / real n) * 100)) \<le> math_round 100"
    using p(2) by (rule math_round_mono)
  moreover have "math_round 0 = 0" "math_round 100 = 100" by (simp_all add: math_round_def)
  ultimately show ?thesis by simp
qed

lemma score_upper:
  assumes "0 \<le> w" "0 \<le> a"
  shows "math_round (binary64 (binary64 (100 - real_of_int w) - a)) \<le> 100"
proof -
  have "binary64 (100 - real_of_int w) \<le> 100" using assms(1) by (intro binary64_le_100) simp
  then have "binary64 (100 - real_of_int w) - a \<le> 100" using assms(2) by simp
  then have "binary64 (binary64 (100 - real_of_int w) - a) \<le> 100" by (rule binary64_le_100)
  then have "math_round (binary64 (binary64 (100 - real_of_int w) - a)) \<le> math_round 100"
    by (rule math_round_mono)
  then show ?thesis by (simp add: math_round_def)
qed

lemma penalty_nonneg: "0 \<le> binary64 (real_of_int (max 0 c) * binary64 (2 / 5))"
  by (intro binary64_nonneg mult_nonneg_nonneg) simp_all

lemma total_known:
  "length (filter knownSignal signals) \<le> (if length signals = 0 then 1 else length signals)
   \<and> 0 < (if length signals = 0 then 1 else length signals)"
  by (simp add: le_Suc_eq)

lemma all_known_complete:
  assumes "signals \<noteq> []" "\<forall>s\<in>set signals. knownSignal s"
  shows "dataCompletenessPct (scoreConfidence signals warnings) = 100"
proof -
  have "filter knownSignal signals = signals" using assms(2) by simp
  moreover have "real (length signals) / real (length signals) = 1" using assms(1) by simp
  ultimately show ?thesis
    using assms(1)
    by (simp add: scoreConfidence_def Let_def binary64_1 binary64_100 math_round_def)
qed

lemma mixedSignals_counts:
  "length (mixedSignals k m) = k + m \<and> length (filter knownSignal (mixedSignals k m)) = k"
  by (simp add: mixedSignals_def knownSignal_def availableSignal_def missingSignal_def
      exampleSignal_def)

text \<open>The scorer, one rounded operation at a time.\<close>

lemma scoreConfidence_steps:
  assumes "length signals = n" "0 < n" "length (filter knownSignal signals) = k"
    and "binary64 (real k / real n) = q"
    and "binary64 (q * 100) = p"
    and "math_round p = c"
    and "binary64 (real_of_int (max 0 (100 - c)) * binary64 (2 / 5)) = a"
    and "binary64 (binary64 (100 - real_of_int (min (int (length warnings) * 6) 30)) - a) = t"
  shows "scoreConfidence signals warnings
           = \<lparr>confidenceScore = max 35 (math_round t), dataCompletenessPct = c\<rparr>"
proof -
  have n: "(if length signals = 0 then 1 else length signals) = n" using assms(1,2) by simp
  show ?thesis
    unfolding scoreConfidence_def Let_def n assms(3) assms(4) assms(5) assms(6) assms(7) assms(8)
    by (rule refl)
qed

text \<open>
  57 known signals of 200, no warning. The quotient \<open>57 / 200\<close> is rounded to the double
  \<open>5134103575202365 / 2^54\<close>, just below \<open>0.285\<close>; its product with 100 is rounded to
  \<open>8022036836253695 / 2^48 = 28.499999999999996447...\<close>, below \<open>28.5\<close>, so
  \<^verbatim>\<open>Math.round\<close> gives 28. Then \<open>72 * 0.4\<close> is rounded to \<open>8106479329266893 / 2^48\<close>
  (\<open>28.8000000000000007...\<close>) and \<open>100\<close> minus it to \<open>5010254585449677 / 2^46\<close>
  (\<open>71.2\<close> to 14 places), which \<^verbatim>\<open>Math.round\<close> takes to 71.
\<close>

lemma known57_quotient: "binary64 (real 57 / real 200) = 5134103575202365 / 18014398509481984"
  using binary64_eq [of "-2" "57 / 200"] by (simp add: round_half_even_def)

lemma known57_product:
  "binary64 (5134103575202365 / 18014398509481984 * 100) = 8022036836253695 / 281474976710656"
  using binary64_eq [of 4 "5134103575202365 / 18014398509481984 * 100"]
  by (simp add: round_half_even_def)

lemma known57_completeness: "math_round (8022036836253695 / 281474976710656) = 28"
  by (simp add: math_round_def)

lemma known57_penalty:
  "binary64 (real_of_int (max 0 (100 - 28)) * binary64 (2 / 5))
     = 8106479329266893 / 281474976710656"
  using binary64_eq [of 4 "72 * (3602879701896397 / 9007199254740992)"]
  by (simp add: binary64_point4 round_half_even_def)

lemma known57_difference:
  "binary64 (binary64 (100 - real_of_int (min (int (length ([]::string list)) * 6) 30))
      - 8106479329266893 / 281474976710656) = 5010254585449677 / 70368744177664"
  using binary64_eq [of 6 "100 - 8106479329266893 / 281474976710656"]
  by (simp add: binary64_100 round_half_even_def)

lemma known57_score: "max 35 (math_round (5010254585449677 / 70368744177664)) = 71"
  by (simp add: math_round_def)

lemma known57_result:
  "scoreConfidence (mixedSignals 57 143) []
     = \<lparr>confidenceScore = 71, dataCompletenessPct = 28\<rparr>"
proof -
  have l: "length (mixedSignals 57 143) = 200"
    "length (filter knownSignal (mixedSignals 57 143)) = 57"
    using mixedSignals_counts [of 57 143] by simp_all
  show ?thesis
    using scoreConfidence_steps [OF l(1) _ l(2) known57_quotient known57_product
        known57_completeness known57_penalty known57_difference]
    by (simp only: known57_score)
qed

text \<open>
  Claim C9, as stated: the score is
  \<open>max(35, round(100 - min(6 * warningCount, 30) - max(0, 100 - completenessPct) * 0.4))\<close>
  with \<open>completenessPct = round(100 * countKnown / totalSignals)\<close>. It fails for 200
  signals of which 57 are known, with no warning: \<open>100 * 57 / 200\<close> is \<open>28.5\<close>, which
  rounds to 29 and gives the score 72, but the program computes \<open>(57 / 200) * 100\<close> in
  binary64, which is \<open>28.499999999999996\<close>, and returns the completeness 28 and the
  score 71.
\<close>

theorem completeness_rounding_counterexample:
  "length (mixedSignals 57 143) = 200
   \<and> length (filter knownSignal (mixedSignals 57 143)) = 57
   \<and> scoreConfidence (mixedSignals 57 143) []
       = \<lparr>confidenceScore = 71, dataCompletenessPct = 28\<rparr>
   \<and> math_round (100 * real 57 / real 200) = 29
   \<and> max 35 (math_round (100 - real_of_int (min (6 * int (length ([]::string list))) 30)
        - real_of_int (max 0 (100 - 29)) * (2 / 5))) = 72"
proof -
  have a: "math_round (100 * real 57 / real 200) = 29
      \<and> max 35 (math_round (100 - real_of_int (min (6 * int (length ([]::string list))) 30)
          - real_of_int (max 0 (100 - 29)) * (2 / 5))) = 72"
    by (simp add: math_round_def)
  have l: "length (mixedSignals 57 143) = 200"
    "length (filter knownSignal (mixedSignals 57 143)) = 57"
    using mixedSignals_counts [of 57 143] by simp_all
  show ?thesis using a l known57_result by blast
qed

text \<open>
  Claim C9, amended: the score is
  \<open>max(35, round(100 - min(6 * warningCount, 30) - max(0, 100 - completenessPct) * 0.4))\<close>
  and, for a non-empty signal list, \<open>completenessPct = round((countKnown / totalSignals) *
  100)\<close>, a signal counting as known unless its value is \<^verbatim>\<open>Not available\<close> or
  \<^verbatim>\<open>Unknown\<close>, where the quotient, the products and the differences are each rounded to
  binary64 (so \<open>completenessPct\<close> need not be \<open>round(100 * countKnown / totalSignals)\<close>). The
  completeness always lies in \<open>[0, 100]\<close> and the score in \<open>[35, 100]\<close>, and no warning
  with a completeness of 100 gives the score 100.
\<close>

theorem scoreConfidence_range:
  "confidenceScore (scoreConfidence signals warnings) =
     max 35 (math_round (binary64 (binary64 (100 - real_of_int (min (6 * int (length warnings)) 30))
        - binary64 (real_of_int (max 0 (100 - dataCompletenessPct (scoreConfidence signals warnings)))
            * binary64 (2 / 5)))))
   \<and> (signals \<noteq> [] \<longrightarrow> dataCompletenessPct (scoreConfidence signals warnings) =
        math_round (binary64 (binary64 (real (length (filter knownSignal signals))
          / real (length signals)) * 100)))
   \<and> 0 \<le> dataCompletenessPct (scoreConfidence signals warnings)
   \<and> dataCompletenessPct (scoreConfidence signals warnings) \<le> 100
   \<and> 35 \<le> confidenceScore (scoreConfidence signals warnings)
   \<and> confidenceScore (scoreConfidence signals warnings) \<le> 100
   \<and> (warnings = [] \<and> dataCompletenessPct (scoreConfidence signals warnings) = 100 \<longrightarrow>
        confidenceScore (scoreConfidence signals warnings) = 100)"
proof -
  have a: "confidenceScore (scoreConfidence signals warnings) =
     max 35 (math_round (binary64 (binary64 (100 - real_of_int (min (6 * int (length warnings)) 30))
        - binary64 (real_of_int (max 0 (100 - dataCompletenessPct (scoreConfidence signals warnings)))
            * binary64 (2 / 5)))))"
    by (simp add: scoreConfidence_def Let_def mult.commute)
  have b: "signals \<noteq> [] \<longrightarrow> dataCompletenessPct (scoreConfidence signals warnings) =
        math_round (binary64 (binary64 (real (length (filter knownSignal signals))
          / real (length signals)) * 100))"
    by (simp add: scoreConfidence_def Let_def)
  have c: "0 \<le> dataCompletenessPct (scoreConfidence signals warnings)
      \<and> dataCompletenessPct (scoreConfidence signals warnings) \<le> 100"
    using completeness_range [of "length (filter knownSignal signals)"
        "if length signals = 0 then 1 else length signals"] total_known [of signals]
    by (simp add: scoreConfidence_def Let_def)
  have d: "35 \<le> confidenceScore (scoreConfidence signals warnings)"
    unfolding a by simp
  have "math_round (binary64 (binary64 (100 - real_of_int (min (6 * int (length warnings)) 30))
        - binary64 (real_of_int (max 0 (100 - dataCompletenessPct (scoreConfidence signals warnings)))
            * binary64 (2 / 5)))) \<le> 100"
    by (intro score_upper penalty_nonneg) simp
  then have e: "confidenceScore (scoreConfidence signals warnings) \<le> 100"
    unfolding a by simp
  have f: "warnings = [] \<and> dataCompletenessPct (scoreConfidence signals warnings) = 100 \<longrightarrow>
        confidenceScore (scoreConfidence signals warnings) = 100"
  proof
    assume h: "warnings = [] \<and> dataCompletenessPct (scoreConfidence signals warnings) = 100"
    from h have hw: "warnings = []" by (rule conjunct1)
    from h have hc: "dataCompletenessPct (scoreConfidence signals warnings) = 100"
      by (rule conjunct2)
    have "confidenceScore (scoreConfidence signals warnings)
        = max 35 (math_round (binary64 (binary64 (100 - real_of_int (min (6 * int (length warnings)) 30))
            - binary64 (real_of_int (max 0 (100 - 100)) * binary64 (2 / 5)))))"
      by (subst a, subst hc, rule refl)
    then show "confidenceScore (scoreConfidence signals warnings) = 100"
      by (simp add: hw binary64_100 binary64_zero math_round_def)
  qed
  show ?thesis using a b c d e f by blast
qed

text \<open>Three signals, all known, no warning: completeness 100 and score 100.\<close>

theorem scoreConfidence_range_witness:
  "mixedSignals 3 0 \<noteq> []
   \<and> ([]::string list) = []
   \<and> dataCompletenessPct (scoreConfidence (mixedSignals 3 0) []) = 100
   \<and> confidenceScore (scoreConfidence (mixedSignals 3 0) []) = 100"
proof -
  have ne: "mixedSignals 3 0 \<noteq> []" by (simp add: mixedSignals_def)
  have "\<forall>s\<in>set (mixedSignals 3 0). knownSignal s"
    by (simp add: mixedSignals_def knownSignal_def availableSignal_def exampleSignal_def)
  with ne have c: "dataCompletenessPct (scoreConfidence (mixedSignals 3 0) []) = 100"
    by (rule all_known_complete)
  from c scoreConfidence_range [of "mixedSignals 3 0" "[]"]
  have "confidenceScore (scoreConfidence (mixedSignals 3 0) []) = 100" by blast
  with ne c show ?thesis by simp
qed

text \<open>
  Claim C10: for an empty signal list the scorer divides by 1, not by 0: the completeness
  is 0 for every warning list, and with no warning the result is the score 60 with
  completeness 0.
\<close>

theorem empty_signals_score:
  "dataCompletenessPct (scoreConfidence [] warnings) = 0
   \<and> scoreConfidence [] [] = \<lparr>confidenceScore = 60, dataCompletenessPct = 0\<rparr>"
  by (simp add: scoreConfidence_def Let_def binary64_zero binary64_100
      binary64_100_point4 binary64_60 math_round_def)

theorem empty_signals_score_witness:
  "dataCompletenessPct (scoreConfidence [] [''Soil data unavailable'']) = 0
   \<and> confidenceScore (scoreConfidence [] []) = 60"
  using empty_signals_score [of "[''Soil data unavailable'']"] by simp

end
